theory Spec2Isabelle
  imports Main
begin

section \<open>Strings: the parts of Go's \<open>strings\<close> package the resolver uses\<close>

text \<open>
  A Go \<open>string\<close> and a Go \<open>[]byte\<close> are both byte sequences; both are modelled as
  \<^typ>\<open>string\<close> (a list of 8-bit characters).
\<close>

type_synonym bytes = string

text \<open>
  \<open>strings.Split(s, sep)\<close> for a separator of one byte (the source only splits on
  \<open>"."\<close> and \<open>"/"\<close>): the pieces of \<open>s\<close> between the separators. The result is never
  empty; \<open>Split("", sep)\<close> is the list holding one empty string.
\<close>

primrec strings_Split :: "string \<Rightarrow> char \<Rightarrow> string list" where
  "strings_Split [] sep = [[]]"
| "strings_Split (x # xs) sep =
     (if x = sep then [] # strings_Split xs sep
      else (case strings_Split xs sep of
              p # ps \<Rightarrow> (x # p) # ps
            | [] \<Rightarrow> [[x]]))"

text \<open>\<open>strings.Join(elems, sep)\<close>.\<close>

fun strings_Join :: "string list \<Rightarrow> string \<Rightarrow> string" where
  "strings_Join [] sep = []"
| "strings_Join [x] sep = x"
| "strings_Join (x # y # ys) sep = x @ sep @ strings_Join (y # ys) sep"

text \<open>\<open>strings.HasSuffix\<close> and \<open>strings.TrimSuffix\<close>.\<close>

definition strings_HasSuffix :: "string \<Rightarrow> string \<Rightarrow> bool" where
  "strings_HasSuffix s suffix =
     (length suffix \<le> length s \<and> drop (length s - length suffix) s = suffix)"

definition strings_TrimSuffix :: "string \<Rightarrow> string \<Rightarrow> string" where
  "strings_TrimSuffix s suffix =
     (if strings_HasSuffix s suffix then take (length s - length suffix) s else s)"

text \<open>\<open>strings.TrimRight(s, cutset)\<close>: drops every trailing byte that is in the cutset.\<close>

definition strings_TrimRight :: "string \<Rightarrow> string \<Rightarrow> string" where
  "strings_TrimRight s cutset = rev (dropWhile (\<lambda>c. c \<in> set cutset) (rev s))"


section \<open>The request resolver (\<open>gitea.go\<close>)\<close>

text \<open>The \<open>Middleware\<close> struct, without the client pointer.\<close>

record Middleware =
  Server :: string
  Token :: string
  GiteaPages :: string
  GiteaPagesAllowAll :: string
  Domain :: string

text \<open>
  What the resolver reads of an \<open>http.Request\<close>: \<open>r.Host\<close>, \<open>r.URL.Path\<close> and
  \<open>r.URL.Query().Get("ref")\<close> (the empty string when the parameter is absent).
\<close>

record Request =
  Host :: string
  URL_Path :: string
  Query_ref :: string

text \<open>The four named results \<open>(owner, repo, filePath, ref)\<close>.\<close>

record Target =
  owner :: string
  repo :: string
  filePath :: string
  ref :: string

text \<open>
  The labels \<open>h\<close> of the host: the domain suffix is removed, then all trailing dots, and
  the rest is split on dots (lines 99 and 100).
\<close>

definition hostLabels :: "Middleware \<Rightarrow> Request \<Rightarrow> string list" where
  "hostLabels m r =
     strings_Split (strings_TrimRight (strings_TrimSuffix (Host r) (Domain m)) ''.'') (CHR ''.'')"

text \<open>
  \<open>inferOwnerRepoPathAndRef\<close> (lines 96 to 146). \<open>h\<close> is never empty, so \<open>h[0]\<close> does
  not panic. The named results start as empty strings, which is what a \<open>switch\<close> without
  a matching case leaves in them.
\<close>

definition inferOwnerRepoPathAndRef :: "Middleware \<Rightarrow> Request \<Rightarrow> Target" where
  "inferOwnerRepoPathAndRef m r =
     (let h = hostLabels m r;
          owner0 = h ! 0;
          ref0 = Query_ref r
      in if Domain m = [] then
           (let parts = strings_Split (URL_Path r) (CHR ''/'')
            in if length parts = 1 then
                 \<lparr>owner = owner0, repo = [], filePath = parts ! 0, ref = ref0\<rparr>
               else if length parts > 1 then
                 \<lparr>owner = owner0, repo = parts ! 0,
                  filePath = strings_Join (drop 1 parts) ''/'', ref = ref0\<rparr>
               else
                 \<lparr>owner = owner0, repo = [], filePath = [], ref = ref0\<rparr>)
         else
           (if length h = 1 then
              \<lparr>owner = h ! 0, repo = [], filePath = URL_Path r, ref = ref0\<rparr>
            else if length h = 2 then
              \<lparr>owner = h ! 1, repo = h ! 0, filePath = URL_Path r, ref = ref0\<rparr>
            else if length h = 3 then
              \<lparr>owner = h ! 2, repo = h ! 1, filePath = URL_Path r, ref = h ! 0\<rparr>
            else
              \<lparr>owner = owner0, repo = [], filePath = URL_Path r, ref = ref0\<rparr>))"


section \<open>The content client (\<open>pkg/gitea/gitea.go\<close>)\<close>

subsection \<open>Data\<close>

text \<open>
  Errors as values. \<open>ErrNotExist\<close> is the sentinel \<open>fs.ErrNotExist\<close>;
  \<open>UnexpectedStatus n\<close> is the error built by
  \<open>fmt.Errorf("unexpected status code '%d'", n)\<close>; \<open>ErrOther\<close> stands for every
  error that an external library hands back (transport, URL building, parsing).
\<close>

datatype error = ErrNotExist | UnexpectedStatus int | ErrOther string

text \<open>The \<open>iota\<close> enumeration, and the integer each constant stands for.\<close>

datatype AllowedBranches = AllowedBranchesNone | AllowedBranchesLimited | AllowedBranchesAll

primrec iota :: "AllowedBranches \<Rightarrow> nat" where
  "iota AllowedBranchesNone = 0"
| "iota AllowedBranchesLimited = 1"
| "iota AllowedBranchesAll = 2"

record Client =
  serverURL :: string
  token :: string
  giteapages :: string
  giteapagesAllowAll :: string

text \<open>
  \<open>NewClient\<close> (lines 33 to 54). The first argument is the error, if any, of the
  SDK's own constructor.
\<close>

definition NewClient :: "error option \<Rightarrow> string \<Rightarrow> string \<Rightarrow> string \<Rightarrow> string \<Rightarrow> error + Client" where
  "NewClient sdk srv tok pages allowAll =
     (let pages1 = (if pages = [] then ''gitea-pages'' else pages);
          allowAll1 = (if allowAll = [] then ''gitea-pages-allowall'' else allowAll)
      in case sdk of
           Some err \<Rightarrow> Inl err
         | None \<Rightarrow> Inr \<lparr>serverURL = srv, token = tok, giteapages = pages1,
                        giteapagesAllowAll = allowAll1\<rparr>)"

text \<open>An HTTP response: its status code and what \<open>io.ReadAll\<close> gives on its body.\<close>

record Response =
  StatusCode :: int
  Body :: "error + bytes"

text \<open>A value of Go's \<open>any\<close>, as found in parsed front matter.\<close>

datatype any = AnyString string | AnyInt int | AnyBool bool | AnyNil

text \<open>\<open>openFile\<close>, the file handed back by \<open>Open\<close>.\<close>

record openFile =
  content :: bytes
  name :: string

text \<open>
  The process-wide viper instance. The client only ever reads the key
  \<open>allowedrefs\<close> from it, so its state is the string slice that
  \<open>viper.GetStringSlice("allowedrefs")\<close> returns: empty until a configuration that
  sets the key has been read.
\<close>

type_synonym viper = "string list"

definition viper_initial :: viper where
  "viper_initial = []"

text \<open>
  Everything outside the client, fixed for the time of one request:
  \<^item> \<open>ListRepoTopics owner repo\<close> and \<open>GetRepoBranch owner repo branch\<close> (the name of
    the branch found) are the two SDK calls;
  \<^item> \<open>HttpGet owner repo filepath ref\<close> is the exchange of lines 141 to 158: building
    the media URL, building the request with the token and sending it, any of which may
    fail with an error;
  \<^item> \<open>viper_ReadConfig cfg v\<close> is \<open>viper.ReadConfig\<close> on the bytes \<open>cfg\<close> as TOML,
    from the state \<open>v\<close>: its error, if any, and the new state;
  \<^item> \<open>extractFrontMatter\<close> and \<open>markdown\<close> are the two helpers of the package that
    \<open>handleMD\<close> calls.
\<close>

record World =
  ListRepoTopics :: "string \<Rightarrow> string \<Rightarrow> error + string list"
  GetRepoBranch :: "string \<Rightarrow> string \<Rightarrow> string \<Rightarrow> error + string"
  HttpGet :: "string \<Rightarrow> string \<Rightarrow> string \<Rightarrow> string \<Rightarrow> error + Response"
  viper_ReadConfig :: "bytes \<Rightarrow> viper \<Rightarrow> error option \<times> viper"
  extractFrontMatter :: "string \<Rightarrow> error + ((string \<rightharpoonup> any) \<times> string)"
  markdown :: "bytes \<Rightarrow> error + bytes"

subsection \<open>Fetching a raw file\<close>

text \<open>\<open>getRawFileOrLFS\<close> (lines 133 to 176).\<close>

definition getRawFileOrLFS :: "Client \<Rightarrow> World \<Rightarrow> string \<Rightarrow> string \<Rightarrow> string \<Rightarrow> string \<Rightarrow> error + bytes" where
  "getRawFileOrLFS c w ownr rpo filepath rf =
     (case HttpGet w ownr rpo filepath rf of
        Inl err \<Rightarrow> Inl err
      | Inr resp \<Rightarrow>
          if StatusCode resp = 404 then Inl ErrNotExist
          else if StatusCode resp = 200 then Body resp
          else Inl (UnexpectedStatus (StatusCode resp)))"

subsection \<open>Markdown\<close>

text \<open>
  \<open>handleMD\<close> (lines 184 to 203). The type assertion \<open>meta["title"].(string)\<close> with
  its second result dropped gives the empty string when the key is absent or its value
  is not a string.
\<close>

definition title_of :: "(string \<rightharpoonup> any) \<Rightarrow> string" where
  "title_of meta = (case meta ''title'' of Some (AnyString s) \<Rightarrow> s | _ \<Rightarrow> [])"

definition handleMD :: "World \<Rightarrow> bytes \<Rightarrow> error + bytes" where
  "handleMD w res =
     (case extractFrontMatter w res of
        Inl err \<Rightarrow> Inl err
      | Inr (meta, resbody) \<Rightarrow>
          (case markdown w resbody of
             Inl err \<Rightarrow> Inl err
           | Inr resmd \<Rightarrow>
               Inr ((''<!DOCTYPE html>\<newline><html>\<newline><body>\<newline><h1>'' @ title_of meta)
                    @ ''</h1>'' @ resmd @ ''</body></html>'')))"

subsection \<open>Topics, branches and the allowance level\<close>

definition repoTopics :: "Client \<Rightarrow> World \<Rightarrow> string \<Rightarrow> string \<Rightarrow> error + string list" where
  "repoTopics c w ownr rpo = ListRepoTopics w ownr rpo"

text \<open>\<open>hasRepoBranch\<close> (lines 210 to 217): false on every error.\<close>

definition hasRepoBranch :: "Client \<Rightarrow> World \<Rightarrow> string \<Rightarrow> string \<Rightarrow> string \<Rightarrow> bool" where
  "hasRepoBranch c w ownr rpo branch =
     (case GetRepoBranch w ownr rpo branch of
        Inl err \<Rightarrow> False
      | Inr b_Name \<Rightarrow> b_Name = branch)"

text \<open>
  One of the two loops of \<open>allowsPages\<close>: does a topic of the list equal \<open>t\<close>?
\<close>

primrec hasTopic :: "string list \<Rightarrow> string \<Rightarrow> bool" where
  "hasTopic [] t = False"
| "hasTopic (topic # topics) t = (if topic = t then True else hasTopic topics t)"

text \<open>\<open>allowsPages\<close> (lines 219 to 238).\<close>

definition allowsPages :: "Client \<Rightarrow> World \<Rightarrow> string \<Rightarrow> string \<Rightarrow> AllowedBranches" where
  "allowsPages c w ownr rpo =
     (case repoTopics c w ownr rpo of
        Inl err \<Rightarrow> AllowedBranchesNone
      | Inr topics \<Rightarrow>
          if hasTopic topics (giteapagesAllowAll c) then AllowedBranchesAll
          else if hasTopic topics (giteapages c) then AllowedBranchesLimited
          else AllowedBranchesNone)"

subsection \<open>The per-repository configuration\<close>

text \<open>
  \<open>readConfig\<close> (lines 240 to 249): the error, if any, and the state of viper
  afterwards. When the file cannot be fetched viper is not touched.
\<close>

definition readConfig :: "Client \<Rightarrow> World \<Rightarrow> string \<Rightarrow> string \<Rightarrow> viper \<Rightarrow> error option \<times> viper" where
  "readConfig c w ownr rpo v =
     (case getRawFileOrLFS c w ownr rpo (giteapages c @ ''.toml'') (giteapages c) of
        Inl err \<Rightarrow> (Some err, v)
      | Inr cfg \<Rightarrow> viper_ReadConfig w cfg v)"

text \<open>
  \<open>validRefs\<close> (lines 251 to 268). The loop over the slice read from viper comes
  first; the function takes the state of viper as its third argument.
\<close>

primrec validRefs_loop :: "string list \<Rightarrow> string \<Rightarrow> bool" where
  "validRefs_loop [] rf = False"
| "validRefs_loop (r # rs) rf =
     (if r = rf then True else if r = ''*'' then True else validRefs_loop rs rf)"

definition validRefs :: "string \<Rightarrow> AllowedBranches \<Rightarrow> viper \<Rightarrow> bool" where
  "validRefs rf allowedBranches v =
     (if allowedBranches = AllowedBranchesAll then True else validRefs_loop v rf)"

subsection \<open>\<open>Open\<close>\<close>

text \<open>
  \<open>Open\<close> (lines 56 to 131) in the four blocks it is written in. Each block is a
  function of the local variables it reads and returns the ones it assigns.

  Lines 67 to 93, after \<open>allowedBranches\<close> has been computed: the access check. The
  block assigns \<open>ref\<close> only; \<open>maybeRepo\<close> and \<open>allowedBranches2\<close> are locals of the
  block, and both branch lookups are made on \<open>repo\<close>.
\<close>

definition Open_access :: "Client \<Rightarrow> World \<Rightarrow> string \<Rightarrow> string \<Rightarrow> string \<Rightarrow> bool \<Rightarrow> AllowedBranches \<Rightarrow> error + string" where
  "Open_access c w ownr rpo rf compatibilityMode allowedBranches =
     (if allowedBranches = AllowedBranchesNone then
        if rpo = giteapages c \<and> \<not> hasRepoBranch c w ownr rpo (giteapages c) then Inl ErrNotExist
        else if compatibilityMode then
          (let maybeRepo = giteapages c;
               rf1 = (if rf = [] then giteapages c else rf);
               allowedBranches2 = allowsPages c w ownr maybeRepo
           in if allowedBranches2 = AllowedBranchesNone
                 \<or> \<not> hasRepoBranch c w ownr rpo (giteapages c)
              then Inl ErrNotExist
              else Inr rf1)
        else Inr rf
      else Inr rf)"

text \<open>Lines 95 to 105: loading the configuration; the result is \<open>hasConfig\<close>.\<close>

definition Open_config :: "Client \<Rightarrow> World \<Rightarrow> string \<Rightarrow> string \<Rightarrow> AllowedBranches \<Rightarrow> viper \<Rightarrow> (error + bool) \<times> viper" where
  "Open_config c w ownr rpo allowedBranches v =
     (case readConfig c w ownr rpo v of
        (Some err, v1) \<Rightarrow>
          if rpo \<noteq> giteapages c \<and> iota allowedBranches < iota AllowedBranchesAll
          then (Inl err, v1)
          else (Inr False, v1)
      | (None, v1) \<Rightarrow> (Inr True, v1))"

text \<open>Lines 107 to 113: the ref that is served.\<close>

definition Open_ref :: "Client \<Rightarrow> string \<Rightarrow> string \<Rightarrow> AllowedBranches \<Rightarrow> bool \<Rightarrow> viper \<Rightarrow> error + string" where
  "Open_ref c rpo rf allowedBranches hasConfig v =
     (if \<not> hasConfig \<and> (rpo = giteapages c \<or> rf = giteapages c) then Inr (giteapages c)
      else if \<not> validRefs rf allowedBranches v then Inl ErrNotExist
      else Inr rf)"

text \<open>Lines 115 to 130: fetching the file and rendering Markdown.\<close>

definition Open_serve :: "Client \<Rightarrow> World \<Rightarrow> string \<Rightarrow> string \<Rightarrow> string \<Rightarrow> string \<Rightarrow> error + openFile" where
  "Open_serve c w ownr rpo filepath rf =
     (case getRawFileOrLFS c w ownr rpo filepath rf of
        Inl err \<Rightarrow> Inl err
      | Inr res \<Rightarrow>
          if strings_HasSuffix filepath ''.md'' then
            (case handleMD w res of
               Inl err \<Rightarrow> Inl err
             | Inr res1 \<Rightarrow> Inr \<lparr>content = res1, name = filepath\<rparr>)
          else Inr \<lparr>content = res, name = filepath\<rparr>)"

text \<open>Lines 57 to 65: the defaults for an empty repository and an empty file path.\<close>

definition default_repo :: "Client \<Rightarrow> string \<Rightarrow> string" where
  "default_repo c rpo = (if rpo = [] then giteapages c else rpo)"

definition default_filepath :: "string \<Rightarrow> string" where
  "default_filepath filepath = (if filepath = [] \<or> filepath = ''/'' then ''index.html'' else filepath)"

text \<open>
  \<open>Open\<close>: the result and the state of viper afterwards. The file path the caller's
  pointer is left with is the name of the file returned.
\<close>

definition Open :: "Client \<Rightarrow> World \<Rightarrow> string \<Rightarrow> string \<Rightarrow> string \<Rightarrow> string \<Rightarrow> bool \<Rightarrow> viper \<Rightarrow> (error + openFile) \<times> viper" where
  "Open c w ownr rpo0 filepath0 rf0 compatibilityMode v =
     (let rpo = default_repo c rpo0;
          filepath = default_filepath filepath0;
          allowedBranches = allowsPages c w ownr rpo
      in case Open_access c w ownr rpo rf0 compatibilityMode allowedBranches of
           Inl err \<Rightarrow> (Inl err, v)
         | Inr rf1 \<Rightarrow>
             (case Open_config c w ownr rpo allowedBranches v of
                (Inl err, v1) \<Rightarrow> (Inl err, v1)
              | (Inr hasConfig, v1) \<Rightarrow>
                  (case Open_ref c rpo rf1 allowedBranches hasConfig v1 of
                     Inl err \<Rightarrow> (Inl err, v1)
                   | Inr rf2 \<Rightarrow> (Open_serve c w ownr rpo filepath rf2, v1))))"


section \<open>A concrete client and world\<close>

text \<open>
  A client with the default names, and one small hosting service used to run the
  functions above on concrete requests. Its repositories: \<open>gitea-pages\<close> (pages
  topic, no configuration file; only \<open>alice\<close> has the branch \<open>gitea-pages\<close> in
  it), \<open>blog\<close> (pages topic, a configuration allowing \<open>main\<close>), \<open>wiki\<close> (pages
  topic, the configuration fetch answers 500), \<open>mirror\<close> (both topics, no
  configuration), \<open>site\<close> (no topic, a configuration allowing every ref); any other
  repository does not exist. A file \<open>index.html\<close> holds the name of its repository and
  ref.
\<close>

definition client0 :: Client where
  "client0 = \<lparr>serverURL = ''https://git.example.com'', token = ''secret'',
              giteapages = ''gitea-pages'', giteapagesAllowAll = ''gitea-pages-allowall''\<rparr>"

definition topics0 :: "string \<Rightarrow> string \<Rightarrow> error + string list" where
  "topics0 ownr rpo =
     (if rpo = ''gitea-pages'' then Inr [''gitea-pages'']
      else if rpo = ''blog'' then Inr [''hugo'', ''gitea-pages'']
      else if rpo = ''wiki'' then Inr [''gitea-pages'']
      else if rpo = ''mirror'' then Inr [''gitea-pages'', ''gitea-pages-allowall'']
      else if rpo = ''site'' then Inr []
      else Inl (ErrOther ''404 Not Found''))"

definition branch0 :: "string \<Rightarrow> string \<Rightarrow> string \<Rightarrow> error + string" where
  "branch0 ownr rpo branch =
     (if ownr = ''alice'' \<and> rpo = ''gitea-pages'' then Inr branch
      else if rpo = ''blog'' \<or> rpo = ''site'' then Inr branch
      else Inl (ErrOther ''404 Not Found''))"

definition http0 :: "string \<Rightarrow> string \<Rightarrow> string \<Rightarrow> string \<Rightarrow> error + Response" where
  \<open>http0 ownr rpo filepath rf =
     (if rpo = ''blog'' \<and> filepath = ''gitea-pages.toml'' \<and> rf = ''gitea-pages''
        then Inr \<lparr>StatusCode = 200, Body = Inr ''allowedrefs = ["main"]''\<rparr>
      else if rpo = ''site'' \<and> filepath = ''gitea-pages.toml'' \<and> rf = ''gitea-pages''
        then Inr \<lparr>StatusCode = 200, Body = Inr ''allowedrefs = ["*"]''\<rparr>
      else if rpo = ''wiki'' \<and> filepath = ''gitea-pages.toml''
        then Inr \<lparr>StatusCode = 500, Body = Inr []\<rparr>
      else if filepath = ''index.html''
              \<and> rpo \<in> set [''gitea-pages'', ''blog'', ''wiki'', ''mirror'', ''site'']
        then Inr \<lparr>StatusCode = 200, Body = Inr (rpo @ ''@'' @ rf)\<rparr>
      else if filepath = ''broken'' then Inr \<lparr>StatusCode = 500, Body = Inr []\<rparr>
      else Inr \<lparr>StatusCode = 404, Body = Inr []\<rparr>)\<close>

definition viper0 :: "bytes \<Rightarrow> viper \<Rightarrow> error option \<times> viper" where
  \<open>viper0 cfg v =
     (if cfg = ''allowedrefs = ["main"]'' then (None, [''main''])
      else if cfg = ''allowedrefs = ["*"]'' then (None, [''*''])
      else (Some (ErrOther ''toml''), []))\<close>

text \<open>
  The two Markdown helpers of the world know two documents with front matter, one with
  the title \<open>Hi\<close> and one with the number 42 as title; any other input has no front
  matter. The body \<open>unrenderable\<close> does not render.
\<close>

definition frontMatter0 :: "string \<Rightarrow> error + ((string \<rightharpoonup> any) \<times> string)" where
  "frontMatter0 s =
     (if s = ''---\<newline>title: Hi\<newline>---\<newline># Hello''
        then Inr ([''title'' \<mapsto> AnyString ''Hi''], ''# Hello'')
      else if s = ''---\<newline>title: 42\<newline>---\<newline>body''
        then Inr ([''title'' \<mapsto> AnyInt 42], ''body'')
      else Inr (Map.empty, s))"

definition markdown0 :: "bytes \<Rightarrow> error + bytes" where
  "markdown0 b =
     (if b = ''# Hello'' then Inr ''<h1>Hello</h1>''
      else if b = ''unrenderable'' then Inl (ErrOther ''markdown'')
      else Inr b)"

definition world0 :: World where
  "world0 = \<lparr>ListRepoTopics = topics0, GetRepoBranch = branch0, HttpGet = http0,
             viper_ReadConfig = viper0, extractFrontMatter = frontMatter0, markdown = markdown0\<rparr>"

section \<open>Basic facts\<close>

text \<open>The concrete client is the one \<open>NewClient\<close> builds when no name is configured.\<close>

lemma NewClient_defaults:
  "NewClient None ''https://git.example.com'' ''secret'' [] [] = Inr client0"
  by (simp add: NewClient_def client0_def)

lemmas world0_defs = client0_def world0_def topics0_def branch0_def http0_def viper0_def
  frontMatter0_def markdown0_def

lemmas Open_defs = Open_def Open_access_def Open_config_def Open_ref_def Open_serve_def
  default_repo_def default_filepath_def allowsPages_def repoTopics_def hasRepoBranch_def
  readConfig_def getRawFileOrLFS_def validRefs_def strings_HasSuffix_def

lemmas resolver_defs = inferOwnerRepoPathAndRef_def hostLabels_def strings_TrimRight_def
  strings_TrimSuffix_def strings_HasSuffix_def

text \<open>The last case of \<open>strings_Split\<close> is never taken: the result has a first piece.\<close>

lemma strings_Split_not_Nil: "strings_Split s sep \<noteq> []"
  by (induction s) (auto split: list.splits)

text \<open>Joining the pieces with the separator gives the string back.\<close>

lemma strings_Join_Split: "strings_Join (strings_Split s sep) [sep] = s"
proof (induction s)
  case Nil
  show ?case by simp
next
  case (Cons x xs)
  obtain p ps where sp: "strings_Split xs sep = p # ps"
    using strings_Split_not_Nil [of xs sep] by (cases "strings_Split xs sep") auto
  show ?case
  proof (cases "x = sep")
    case True
    then show ?thesis using Cons sp by simp
  next
    case False
    then show ?thesis using Cons sp by (cases ps) simp_all
  qed
qed

lemma hasTopic_iff: "hasTopic topics t = (t \<in> set topics)"
  by (induction topics) auto

lemma validRefs_loop_iff: "validRefs_loop v rf = (rf \<in> set v \<or> ''*'' \<in> set v)"
  by (induction v) auto


section \<open>The request resolver\<close>

subsection \<open>Legacy mode\<close>

text \<open>
  In legacy mode the repository is the piece of the URL path before its first slash.
  A path that starts with a slash, as the path of an ordinary request does (the paths
  of the package's own test all do), has the empty string before its first slash: the
  repository is empty and the file path is all that follows the leading slash,
  subdirectories included.
\<close>

lemma legacy_leading_slash:
  assumes "Domain m = []" and "URL_Path r = CHR ''/'' # rest"
  shows "repo (inferOwnerRepoPathAndRef m r) = [] \<and> filePath (inferOwnerRepoPathAndRef m r) = rest"
proof -
  have ne: "strings_Split rest (CHR ''/'') \<noteq> []" by (rule strings_Split_not_Nil)
  have j: "strings_Join (strings_Split rest (CHR ''/'')) ''/'' = rest" by (rule strings_Join_Split)
  show ?thesis using assms ne j
    by (simp add: inferOwnerRepoPathAndRef_def Let_def)
qed

text \<open>
  What legacy mode computes in general, in terms of the pieces of the path between its
  slashes: with one piece the repository is empty and the piece is the file path; with
  more, the first piece is the repository and the others, joined, are the file path.
\<close>

lemma legacy_mode_pieces:
  assumes "Domain m = []" and "strings_Split (URL_Path r) (CHR ''/'') = p # ps"
  shows "inferOwnerRepoPathAndRef m r
           = \<lparr>owner = hostLabels m r ! 0,
              repo = (if ps = [] then [] else p),
              filePath = (if ps = [] then p else strings_Join ps ''/''),
              ref = Query_ref r\<rparr>"
  using assms by (cases ps) (simp_all add: inferOwnerRepoPathAndRef_def Let_def)

text \<open>
  Claim C2 (legacy mode: the first segment of the URL path is the repository and the
  remaining segments, joined, are the file path; a path of one segment gives an empty
  repository and that segment as the file path; the ref is the query parameter).

  The code does not do this for the path \<open>/myrepo/index.html\<close>, whose first segment
  is \<open>myrepo\<close>: it splits the path at every slash, the leading one included, so the
  piece it takes for the repository is the empty one in front of that slash. The
  request below resolves to an empty repository and the file path
  \<open>myrepo/index.html\<close>, where the claim, like the comment above the branch (the
  repository is given as the first part of the path, and subdirectories are not hosted),
  has repository \<open>myrepo\<close> and file path \<open>index.html\<close>.
\<close>

theorem legacy_path_with_repo:
  "inferOwnerRepoPathAndRef
     \<lparr>Server = [], Token = [], GiteaPages = [], GiteaPagesAllowAll = [], Domain = []\<rparr>
     \<lparr>Host = ''someorg.example.com'', URL_Path = ''/myrepo/index.html'', Query_ref = []\<rparr>
   = \<lparr>owner = ''someorg'', repo = [], filePath = ''myrepo/index.html'', ref = []\<rparr>"
  by (simp add: inferOwnerRepoPathAndRef_def hostLabels_def strings_TrimRight_def
      strings_TrimSuffix_def strings_HasSuffix_def)

subsection \<open>Subdomain mode\<close>

text \<open>
  Claim C3, as amended. With a domain configured, let the labels be what is left of the
  host after the domain suffix and all trailing dots are removed, split on dots. One
  label gives the owner and an empty repository; two labels give repository and owner; in
  both cases the ref is the \<open>ref\<close> query parameter of the request (empty only when the
  request carries none). Three labels give ref, repository and owner. In every case,
  with any number of labels, the file path is the URL path as it is. Host
  \<open>c.b.a.example.com\<close> with domain \<open>example.com\<close> and path \<open>/x\<close> gives owner
  \<open>a\<close>, repository \<open>b\<close>, ref \<open>c\<close> and file path \<open>/x\<close>, whatever the query.
\<close>

theorem subdomain_labels:
  "(Domain m \<noteq> [] \<and> hostLabels m r = [a] \<longrightarrow>
      inferOwnerRepoPathAndRef m r
        = \<lparr>owner = a, repo = [], filePath = URL_Path r, ref = Query_ref r\<rparr>)
   \<and> (Domain m \<noteq> [] \<and> hostLabels m r = [b, a] \<longrightarrow>
      inferOwnerRepoPathAndRef m r
        = \<lparr>owner = a, repo = b, filePath = URL_Path r, ref = Query_ref r\<rparr>)
   \<and> (Domain m \<noteq> [] \<and> hostLabels m r = [c, b, a] \<longrightarrow>
      inferOwnerRepoPathAndRef m r
        = \<lparr>owner = a, repo = b, filePath = URL_Path r, ref = c\<rparr>)
   \<and> (Domain m \<noteq> [] \<longrightarrow> filePath (inferOwnerRepoPathAndRef m r) = URL_Path r)
   \<and> inferOwnerRepoPathAndRef
        \<lparr>Server = s, Token = t, GiteaPages = g, GiteaPagesAllowAll = ga, Domain = ''example.com''\<rparr>
        \<lparr>Host = ''c.b.a.example.com'', URL_Path = ''/x'', Query_ref = q\<rparr>
      = \<lparr>owner = ''a'', repo = ''b'', filePath = ''/x'', ref = ''c''\<rparr>"
proof -
  have ex: "inferOwnerRepoPathAndRef
        \<lparr>Server = s, Token = t, GiteaPages = g, GiteaPagesAllowAll = ga, Domain = ''example.com''\<rparr>
        \<lparr>Host = ''c.b.a.example.com'', URL_Path = ''/x'', Query_ref = q\<rparr>
      = \<lparr>owner = ''a'', repo = ''b'', filePath = ''/x'', ref = ''c''\<rparr>"
    by (simp add: inferOwnerRepoPathAndRef_def hostLabels_def strings_TrimRight_def
        strings_TrimSuffix_def strings_HasSuffix_def)
  have gen: "Domain m \<noteq> [] \<Longrightarrow> filePath (inferOwnerRepoPathAndRef m r) = URL_Path r"
    by (simp add: inferOwnerRepoPathAndRef_def Let_def)
  show ?thesis using ex gen
    by (simp add: inferOwnerRepoPathAndRef_def Let_def)
qed

text \<open>The theorem at host \<open>b.a.example.com\<close> with \<open>ref=dev\<close> in the query.\<close>

theorem subdomain_labels_witness:
  "Domain \<lparr>Server = [], Token = [], GiteaPages = [], GiteaPagesAllowAll = [], Domain = ''example.com''\<rparr> \<noteq> []
   \<and> hostLabels \<lparr>Server = [], Token = [], GiteaPages = [], GiteaPagesAllowAll = [], Domain = ''example.com''\<rparr>
        \<lparr>Host = ''b.a.example.com'', URL_Path = ''/x'', Query_ref = ''dev''\<rparr> = [''b'', ''a'']
   \<and> inferOwnerRepoPathAndRef
        \<lparr>Server = [], Token = [], GiteaPages = [], GiteaPagesAllowAll = [], Domain = ''example.com''\<rparr>
        \<lparr>Host = ''b.a.example.com'', URL_Path = ''/x'', Query_ref = ''dev''\<rparr>
      = \<lparr>owner = ''a'', repo = ''b'', filePath = ''/x'', ref = ''dev''\<rparr>"
proof -
  have h: "hostLabels \<lparr>Server = [], Token = [], GiteaPages = [], GiteaPagesAllowAll = [], Domain = ''example.com''\<rparr>
        \<lparr>Host = ''b.a.example.com'', URL_Path = ''/x'', Query_ref = ''dev''\<rparr> = [''b'', ''a'']"
    by (simp add: hostLabels_def strings_TrimRight_def strings_TrimSuffix_def strings_HasSuffix_def)
  show ?thesis
    using h subdomain_labels [where
        m = "\<lparr>Server = [], Token = [], GiteaPages = [], GiteaPagesAllowAll = [], Domain = ''example.com''\<rparr>"
        and r = "\<lparr>Host = ''b.a.example.com'', URL_Path = ''/x'', Query_ref = ''dev''\<rparr>"
        and b = "''b''" and a = "''a''"]
    by simp
qed

text \<open>
  Claim C3 as it is written has an empty ref for a host of one label. Host
  \<open>a.example.com\<close> has one label, and with \<open>ref=dev\<close> in the query the ref is
  \<open>dev\<close>.
\<close>

theorem subdomain_one_label_ref_counterexample:
  "hostLabels \<lparr>Server = [], Token = [], GiteaPages = [], GiteaPagesAllowAll = [], Domain = ''example.com''\<rparr>
        \<lparr>Host = ''a.example.com'', URL_Path = ''/x'', Query_ref = ''dev''\<rparr> = [''a'']
   \<and> ref (inferOwnerRepoPathAndRef
        \<lparr>Server = [], Token = [], GiteaPages = [], GiteaPagesAllowAll = [], Domain = ''example.com''\<rparr>
        \<lparr>Host = ''a.example.com'', URL_Path = ''/x'', Query_ref = ''dev''\<rparr>) \<noteq> []"
  by (simp add: inferOwnerRepoPathAndRef_def hostLabels_def strings_TrimRight_def
      strings_TrimSuffix_def strings_HasSuffix_def)

text \<open>
  Claim C10. With a domain configured and a host of more than three labels, the owner is
  the left-most label, the repository is empty, the ref is the \<open>ref\<close> query parameter
  and the file path is the URL path: none of the other labels is used. The function is
  total, so no error is raised.
\<close>

theorem subdomain_many_labels:
  assumes "Domain m \<noteq> []" and "length (hostLabels m r) > 3"
  shows "inferOwnerRepoPathAndRef m r
           = \<lparr>owner = hostLabels m r ! 0, repo = [], filePath = URL_Path r, ref = Query_ref r\<rparr>"
  using assms by (simp add: inferOwnerRepoPathAndRef_def Let_def)

text \<open>The theorem at host \<open>d.c.b.a.example.com\<close>.\<close>

theorem subdomain_many_labels_witness:
  "Domain \<lparr>Server = [], Token = [], GiteaPages = [], GiteaPagesAllowAll = [], Domain = ''example.com''\<rparr> \<noteq> []
   \<and> length (hostLabels \<lparr>Server = [], Token = [], GiteaPages = [], GiteaPagesAllowAll = [], Domain = ''example.com''\<rparr>
        \<lparr>Host = ''d.c.b.a.example.com'', URL_Path = ''/x'', Query_ref = ''dev''\<rparr>) > 3
   \<and> inferOwnerRepoPathAndRef
        \<lparr>Server = [], Token = [], GiteaPages = [], GiteaPagesAllowAll = [], Domain = ''example.com''\<rparr>
        \<lparr>Host = ''d.c.b.a.example.com'', URL_Path = ''/x'', Query_ref = ''dev''\<rparr>
      = \<lparr>owner = ''d'', repo = [], filePath = ''/x'', ref = ''dev''\<rparr>"
proof -
  have h: "hostLabels \<lparr>Server = [], Token = [], GiteaPages = [], GiteaPagesAllowAll = [], Domain = ''example.com''\<rparr>
        \<lparr>Host = ''d.c.b.a.example.com'', URL_Path = ''/x'', Query_ref = ''dev''\<rparr> = [''d'', ''c'', ''b'', ''a'']"
    by (simp add: hostLabels_def strings_TrimRight_def strings_TrimSuffix_def strings_HasSuffix_def)
  show ?thesis
    using h subdomain_many_labels [of
        "\<lparr>Server = [], Token = [], GiteaPages = [], GiteaPagesAllowAll = [], Domain = ''example.com''\<rparr>"
        "\<lparr>Host = ''d.c.b.a.example.com'', URL_Path = ''/x'', Query_ref = ''dev''\<rparr>"]
    by simp
qed


section \<open>The allowance level\<close>

text \<open>
  Claim C4. \<open>allowsPages\<close> is \<open>AllowedBranchesAll\<close> when the allow-all topic is among
  the topics fetched, whatever the other topics; \<open>AllowedBranchesLimited\<close> when it is
  not and the pages topic is; \<open>AllowedBranchesNone\<close> when neither is; and
  \<open>AllowedBranchesNone\<close> when the topics cannot be fetched.
\<close>

theorem allowsPages_levels:
  "(ListRepoTopics w ownr rpo = Inr topics \<and> giteapagesAllowAll c \<in> set topics
      \<longrightarrow> allowsPages c w ownr rpo = AllowedBranchesAll)
   \<and> (ListRepoTopics w ownr rpo = Inr topics \<and> giteapagesAllowAll c \<notin> set topics
        \<and> giteapages c \<in> set topics
      \<longrightarrow> allowsPages c w ownr rpo = AllowedBranchesLimited)
   \<and> (ListRepoTopics w ownr rpo = Inr topics \<and> giteapagesAllowAll c \<notin> set topics
        \<and> giteapages c \<notin> set topics
      \<longrightarrow> allowsPages c w ownr rpo = AllowedBranchesNone)
   \<and> (ListRepoTopics w ownr rpo = Inl err
      \<longrightarrow> allowsPages c w ownr rpo = AllowedBranchesNone)"
  by (simp add: allowsPages_def repoTopics_def hasTopic_iff)

text \<open>The theorem at the four repositories \<open>mirror\<close>, \<open>blog\<close>, \<open>site\<close> and \<open>docs\<close>.\<close>

theorem allowsPages_levels_witness:
  "ListRepoTopics world0 ''alice'' ''mirror'' = Inr [''gitea-pages'', ''gitea-pages-allowall'']
   \<and> giteapagesAllowAll client0 \<in> set [''gitea-pages'', ''gitea-pages-allowall'']
   \<and> allowsPages client0 world0 ''alice'' ''mirror'' = AllowedBranchesAll
   \<and> ListRepoTopics world0 ''alice'' ''blog'' = Inr [''hugo'', ''gitea-pages'']
   \<and> giteapagesAllowAll client0 \<notin> set [''hugo'', ''gitea-pages'']
   \<and> giteapages client0 \<in> set [''hugo'', ''gitea-pages'']
   \<and> allowsPages client0 world0 ''alice'' ''blog'' = AllowedBranchesLimited
   \<and> ListRepoTopics world0 ''alice'' ''site'' = Inr []
   \<and> allowsPages client0 world0 ''alice'' ''site'' = AllowedBranchesNone
   \<and> ListRepoTopics world0 ''alice'' ''docs'' = Inl (ErrOther ''404 Not Found'')
   \<and> allowsPages client0 world0 ''alice'' ''docs'' = AllowedBranchesNone"
proof -
  have t1: "ListRepoTopics world0 ''alice'' ''mirror'' = Inr [''gitea-pages'', ''gitea-pages-allowall'']"
    and t2: "ListRepoTopics world0 ''alice'' ''blog'' = Inr [''hugo'', ''gitea-pages'']"
    and t3: "ListRepoTopics world0 ''alice'' ''site'' = Inr []"
    and t4: "ListRepoTopics world0 ''alice'' ''docs'' = Inl (ErrOther ''404 Not Found'')"
    by (simp_all add: world0_def topics0_def)
  have n: "giteapagesAllowAll client0 = ''gitea-pages-allowall''"
    and g: "giteapages client0 = ''gitea-pages''"
    by (simp_all add: client0_def)
  show ?thesis
    using t1 t2 t3 t4 n g
      allowsPages_levels [where w = world0 and c = client0 and ownr = "''alice''"
        and rpo = "''mirror''" and topics = "[''gitea-pages'', ''gitea-pages-allowall'']"]
      allowsPages_levels [where w = world0 and c = client0 and ownr = "''alice''"
        and rpo = "''blog''" and topics = "[''hugo'', ''gitea-pages'']"]
      allowsPages_levels [where w = world0 and c = client0 and ownr = "''alice''"
        and rpo = "''site''" and topics = "[]"]
      allowsPages_levels [where w = world0 and c = client0 and ownr = "''alice''"
        and rpo = "''docs''" and err = "ErrOther ''404 Not Found''"]
    by simp
qed


section \<open>Validating a ref\<close>

text \<open>
  Claim C5. \<open>validRefs\<close> is true for every ref when the level is
  \<open>AllowedBranchesAll\<close>, whatever viper holds. For any other level it is true exactly
  when the list of allowed refs that viper holds contains the ref itself or contains
  \<open>*\<close>; in particular it is false while no configuration has been loaded.
\<close>

theorem validRefs_spec:
  "validRefs rf AllowedBranchesAll v
   \<and> (allowedBranches \<noteq> AllowedBranchesAll
        \<longrightarrow> validRefs rf allowedBranches v = (rf \<in> set v \<or> ''*'' \<in> set v))
   \<and> (allowedBranches \<noteq> AllowedBranchesAll
        \<longrightarrow> \<not> validRefs rf allowedBranches viper_initial)"
  by (simp add: validRefs_def validRefs_loop_iff viper_initial_def)

text \<open>The theorem at the level \<open>AllowedBranchesLimited\<close>.\<close>

theorem validRefs_spec_witness:
  "AllowedBranchesLimited \<noteq> AllowedBranchesAll
   \<and> validRefs ''main'' AllowedBranchesLimited [''main'']
   \<and> \<not> validRefs ''dev'' AllowedBranchesLimited [''main'']
   \<and> validRefs ''dev'' AllowedBranchesLimited [''main'', ''*'']
   \<and> \<not> validRefs ''main'' AllowedBranchesLimited viper_initial"
  using validRefs_spec [of "''main''" "[''main'']" AllowedBranchesLimited]
    validRefs_spec [of "''dev''" "[''main'']" AllowedBranchesLimited]
    validRefs_spec [of "''dev''" "[''main'', ''*'']" AllowedBranchesLimited]
  by simp

text \<open>
  Inside \<open>Open\<close> the list is only consulted for a configuration loaded by the same
  call: when the load failed and the call goes on, the ref that is served does not
  depend on what an earlier call left in viper.
\<close>

lemma Open_ref_without_config:
  assumes "Open_config c w ownr rpo allowedBranches v = (Inr False, v1)"
  shows "Open_ref c rpo rf allowedBranches False va = Open_ref c rpo rf allowedBranches False vb"
proof -
  have "rpo = giteapages c \<or> allowedBranches = AllowedBranchesAll"
    using assms
    by (cases allowedBranches)
      (auto simp add: Open_config_def split: prod.splits option.splits if_splits)
  then show ?thesis
    by (auto simp add: Open_ref_def validRefs_def)
qed


section \<open>Fetching a raw file\<close>

text \<open>
  Claim C8. In \<open>getRawFileOrLFS\<close> a response with status 404 gives the error
  \<open>ErrNotExist\<close>; a response with status 200 gives what reading its body gives, the
  bytes of the body when it can be read; a response with any other status gives the
  error \<open>UnexpectedStatus\<close> of that status, which is not \<open>ErrNotExist\<close> and which
  differs for different statuses.
\<close>

theorem getRawFileOrLFS_status:
  "(HttpGet w ownr rpo filepath rf = Inr resp \<and> StatusCode resp = 404
      \<longrightarrow> getRawFileOrLFS c w ownr rpo filepath rf = Inl ErrNotExist)
   \<and> (HttpGet w ownr rpo filepath rf = Inr resp \<and> StatusCode resp = 200
      \<longrightarrow> getRawFileOrLFS c w ownr rpo filepath rf = Body resp)
   \<and> (HttpGet w ownr rpo filepath rf = Inr resp \<and> StatusCode resp = 200 \<and> Body resp = Inr b
      \<longrightarrow> getRawFileOrLFS c w ownr rpo filepath rf = Inr b)
   \<and> (HttpGet w ownr rpo filepath rf = Inr resp \<and> StatusCode resp \<noteq> 404 \<and> StatusCode resp \<noteq> 200
      \<longrightarrow> getRawFileOrLFS c w ownr rpo filepath rf = Inl (UnexpectedStatus (StatusCode resp))
          \<and> UnexpectedStatus (StatusCode resp) \<noteq> ErrNotExist)
   \<and> (UnexpectedStatus n = UnexpectedStatus n' \<longrightarrow> n = n')"
  by (simp add: getRawFileOrLFS_def)

text \<open>The theorem at a response with status 500, one with 404 and one with 200.\<close>

theorem getRawFileOrLFS_status_witness:
  "HttpGet world0 ''alice'' ''blog'' ''broken'' ''main'' = Inr \<lparr>StatusCode = 500, Body = Inr []\<rparr>
   \<and> getRawFileOrLFS client0 world0 ''alice'' ''blog'' ''broken'' ''main'' = Inl (UnexpectedStatus 500)
   \<and> HttpGet world0 ''alice'' ''blog'' ''missing'' ''main'' = Inr \<lparr>StatusCode = 404, Body = Inr []\<rparr>
   \<and> getRawFileOrLFS client0 world0 ''alice'' ''blog'' ''missing'' ''main'' = Inl ErrNotExist
   \<and> HttpGet world0 ''alice'' ''blog'' ''index.html'' ''main'' = Inr \<lparr>StatusCode = 200, Body = Inr ''blog@main''\<rparr>
   \<and> getRawFileOrLFS client0 world0 ''alice'' ''blog'' ''index.html'' ''main'' = Inr ''blog@main''"
proof -
  have h1: "HttpGet world0 ''alice'' ''blog'' ''broken'' ''main'' = Inr \<lparr>StatusCode = 500, Body = Inr []\<rparr>"
    by (simp add: world0_def http0_def)
  have h2: "HttpGet world0 ''alice'' ''blog'' ''missing'' ''main'' = Inr \<lparr>StatusCode = 404, Body = Inr []\<rparr>"
    by (simp add: world0_def http0_def)
  have h3: "HttpGet world0 ''alice'' ''blog'' ''index.html'' ''main'' = Inr \<lparr>StatusCode = 200, Body = Inr ''blog@main''\<rparr>"
    by (simp add: world0_def http0_def)
  show ?thesis
    using h1 h2 h3
      getRawFileOrLFS_status [where w = world0 and c = client0 and ownr = "''alice''" and rpo = "''blog''"
        and filepath = "''broken''" and rf = "''main''" and resp = "\<lparr>StatusCode = 500, Body = Inr []\<rparr>"]
      getRawFileOrLFS_status [where w = world0 and c = client0 and ownr = "''alice''" and rpo = "''blog''"
        and filepath = "''missing''" and rf = "''main''" and resp = "\<lparr>StatusCode = 404, Body = Inr []\<rparr>"]
      getRawFileOrLFS_status [where w = world0 and c = client0 and ownr = "''alice''" and rpo = "''blog''"
        and filepath = "''index.html''" and rf = "''main''"
        and resp = "\<lparr>StatusCode = 200, Body = Inr ''blog@main''\<rparr>" and b = "''blog@main''"]
    by simp
qed


section \<open>Markdown\<close>

text \<open>
  Claim C9, as amended. Take an input whose front matter parses. When its body renders,
  \<open>handleMD\<close> returns the document shell with the title between \<open><h1>\<close> and
  \<open></h1>\<close>, followed by the rendered body: the title is the value under the key
  \<open>title\<close> when that value is a string, and the empty string when the key is absent
  or its value is not a string. When the body does not render, \<open>handleMD\<close> returns
  the error of the rendering and no bytes. With the title \<open>Hi\<close> the result holds
  \<open><h1>Hi</h1>\<close> and then the rendered body. Whatever \<open>handleMD\<close> returns as
  bytes is not empty.
\<close>

theorem handleMD_shell:
  "(extractFrontMatter w res = Inr (meta, resbody) \<and> markdown w resbody = Inr resmd
      \<and> meta ''title'' = Some (AnyString title)
      \<longrightarrow> handleMD w res
            = Inr (''<!DOCTYPE html>\<newline><html>\<newline><body>\<newline>'' @ ''<h1>'' @ title @ ''</h1>''
                   @ resmd @ ''</body></html>''))
   \<and> (extractFrontMatter w res = Inr (meta, resbody) \<and> markdown w resbody = Inr resmd
      \<and> (\<forall>s. meta ''title'' \<noteq> Some (AnyString s))
      \<longrightarrow> handleMD w res
            = Inr (''<!DOCTYPE html>\<newline><html>\<newline><body>\<newline>'' @ ''<h1>'' @ [] @ ''</h1>''
                   @ resmd @ ''</body></html>''))
   \<and> (extractFrontMatter w res = Inr (meta, resbody) \<and> markdown w resbody = Inl err
      \<longrightarrow> handleMD w res = Inl err)
   \<and> (extractFrontMatter w res = Inr (meta, resbody) \<and> markdown w resbody = Inr resmd
      \<and> meta ''title'' = Some (AnyString ''Hi'')
      \<longrightarrow> handleMD w res
            = Inr (''<!DOCTYPE html>\<newline><html>\<newline><body>\<newline>'' @ ''<h1>Hi</h1>''
                   @ resmd @ ''</body></html>''))
   \<and> (handleMD w res = Inr out \<longrightarrow> out \<noteq> [])"
proof -
  have other: "title_of meta = []" if "\<forall>s. meta ''title'' \<noteq> Some (AnyString s)"
  proof (cases "meta ''title''")
    case None
    then show ?thesis by (simp add: title_of_def)
  next
    case (Some a)
    with that show ?thesis by (cases a) (simp_all add: title_of_def)
  qed
  have nonempty: "out \<noteq> []" if "handleMD w res = Inr out"
    using that by (auto simp add: handleMD_def split: sum.splits)
  have string: "title_of meta = t" if "meta ''title'' = Some (AnyString t)" for t
    using that by (simp add: title_of_def)
  show ?thesis
    using other nonempty string by (simp add: handleMD_def)
qed

text \<open>
  The theorem at a document with the title \<open>Hi\<close>, at one with no front matter, at one
  whose title is the number 42 and at one whose body does not render.
\<close>

theorem handleMD_shell_witness:
  "extractFrontMatter world0 ''---\<newline>title: Hi\<newline>---\<newline># Hello''
     = Inr ([''title'' \<mapsto> AnyString ''Hi''], ''# Hello'')
   \<and> markdown world0 ''# Hello'' = Inr ''<h1>Hello</h1>''
   \<and> [''title'' \<mapsto> AnyString ''Hi''] ''title'' = Some (AnyString ''Hi'')
   \<and> handleMD world0 ''---\<newline>title: Hi\<newline>---\<newline># Hello''
     = Inr ''<!DOCTYPE html>\<newline><html>\<newline><body>\<newline><h1>Hi</h1><h1>Hello</h1></body></html>''
   \<and> extractFrontMatter world0 [] = Inr (Map.empty, [])
   \<and> markdown world0 [] = Inr []
   \<and> (Map.empty :: string \<rightharpoonup> any) ''title'' = None
   \<and> handleMD world0 []
     = Inr ''<!DOCTYPE html>\<newline><html>\<newline><body>\<newline><h1></h1></body></html>''
   \<and> ''<!DOCTYPE html>\<newline><html>\<newline><body>\<newline><h1></h1></body></html>'' \<noteq> []
   \<and> extractFrontMatter world0 ''---\<newline>title: 42\<newline>---\<newline>body''
     = Inr ([''title'' \<mapsto> AnyInt 42], ''body'')
   \<and> markdown world0 ''body'' = Inr ''body''
   \<and> [''title'' \<mapsto> AnyInt 42] ''title'' = Some (AnyInt 42)
   \<and> handleMD world0 ''---\<newline>title: 42\<newline>---\<newline>body''
     = Inr ''<!DOCTYPE html>\<newline><html>\<newline><body>\<newline><h1></h1>body</body></html>''
   \<and> extractFrontMatter world0 ''unrenderable'' = Inr (Map.empty, ''unrenderable'')
   \<and> markdown world0 ''unrenderable'' = Inl (ErrOther ''markdown'')
   \<and> handleMD world0 ''unrenderable'' = Inl (ErrOther ''markdown'')"
proof -
  have e1: "extractFrontMatter world0 ''---\<newline>title: Hi\<newline>---\<newline># Hello''
     = Inr ([''title'' \<mapsto> AnyString ''Hi''], ''# Hello'')"
    and e2: "extractFrontMatter world0 [] = Inr (Map.empty, [])"
    and e3: "extractFrontMatter world0 ''---\<newline>title: 42\<newline>---\<newline>body''
     = Inr ([''title'' \<mapsto> AnyInt 42], ''body'')"
    and e4: "extractFrontMatter world0 ''unrenderable'' = Inr (Map.empty, ''unrenderable'')"
    by (simp_all add: world0_def frontMatter0_def)
  have m1: "markdown world0 ''# Hello'' = Inr ''<h1>Hello</h1>''"
    and m2: "markdown world0 [] = Inr []"
    and m3: "markdown world0 ''body'' = Inr ''body''"
    and m4: "markdown world0 ''unrenderable'' = Inl (ErrOther ''markdown'')"
    by (simp_all add: world0_def markdown0_def)
  have t2: "\<forall>s. (Map.empty :: string \<rightharpoonup> any) ''title'' \<noteq> Some (AnyString s)"
    and t3: "\<forall>s. [''title'' \<mapsto> AnyInt 42] ''title'' \<noteq> Some (AnyString s)"
    by simp_all
  show ?thesis
    using e1 e2 e3 e4 m1 m2 m3 m4 t2 t3
      handleMD_shell [where w = world0
        and res = "''---\<newline>title: Hi\<newline>---\<newline># Hello''"
        and meta = "[''title'' \<mapsto> AnyString ''Hi'']" and resbody = "''# Hello''"
        and resmd = "''<h1>Hello</h1>''" and title = "''Hi''"]
      handleMD_shell [where w = world0 and res = "[]" and meta = "Map.empty"
        and resbody = "[]" and resmd = "[]"
        and out = "''<!DOCTYPE html>\<newline><html>\<newline><body>\<newline><h1></h1></body></html>''"]
      handleMD_shell [where w = world0
        and res = "''---\<newline>title: 42\<newline>---\<newline>body''"
        and meta = "[''title'' \<mapsto> AnyInt 42]" and resbody = "''body''" and resmd = "''body''"]
      handleMD_shell [where w = world0 and res = "''unrenderable''" and meta = "Map.empty"
        and resbody = "''unrenderable''" and err = "ErrOther ''markdown''"]
    by simp
qed

text \<open>
  Claim C9 as it is written has the title of the front matter in the heading of every
  input whose front matter parses. The front matter of the first document below parses
  with the title 42, and the heading of the result is empty: the result is not the shell
  with 42 in its heading. The front matter of the second document parses too, its body
  does not render, and the result is the error, with no shell.
\<close>

theorem handleMD_title_counterexample:
  "extractFrontMatter world0 ''---\<newline>title: 42\<newline>---\<newline>body''
     = Inr ([''title'' \<mapsto> AnyInt 42], ''body'')
   \<and> handleMD world0 ''---\<newline>title: 42\<newline>---\<newline>body''
     = Inr ''<!DOCTYPE html>\<newline><html>\<newline><body>\<newline><h1></h1>body</body></html>''
   \<and> handleMD world0 ''---\<newline>title: 42\<newline>---\<newline>body''
     \<noteq> Inr ''<!DOCTYPE html>\<newline><html>\<newline><body>\<newline><h1>42</h1>body</body></html>''
   \<and> extractFrontMatter world0 ''unrenderable'' = Inr (Map.empty, ''unrenderable'')
   \<and> handleMD world0 ''unrenderable'' = Inl (ErrOther ''markdown'')"
  by (simp add: handleMD_def title_of_def world0_def frontMatter0_def markdown0_def)


section \<open>\<open>Open\<close>\<close>

subsection \<open>The compatibility fallback\<close>

text \<open>
  In compatibility mode, when the repository asked for has no reserved topic, the branch
  that \<open>Open\<close> looks for is a branch of that repository, not of the default pages
  repository: without it the request fails, whatever the state of the default pages
  repository.
\<close>

lemma Open_fallback_branch_of_repo:
  assumes "compatibilityMode"
    and "allowsPages c w ownr (default_repo c rpo0) = AllowedBranchesNone"
    and "\<not> hasRepoBranch c w ownr (default_repo c rpo0) (giteapages c)"
  shows "Open c w ownr rpo0 filepath0 rf0 compatibilityMode v = (Inl ErrNotExist, v)"
  using assms by (simp add: Open_def Open_access_def Let_def)

text \<open>
  Claim C1 (compatibility mode, allowance \<open>None\<close> for the repository inferred: \<open>Open\<close>
  resolves against the default pages repository instead, fails with \<open>ErrNotExist\<close> when
  the allowance of that repository is \<open>None\<close> too or when that repository lacks the
  pages branch, and otherwise goes on, loading the configuration, validating the ref and
  fetching the file, with the default pages repository as the repository).

  The code does not do this. It computes the allowance of the default pages repository
  (\<open>maybeRepo\<close>), but looks for the pages branch in the repository inferred, and never
  assigns \<open>repo\<close>: every later step runs on the repository inferred. Two requests of
  compatibility mode show it.
  \<^item> \<open>alice\<close> asks for \<open>docs/index.html\<close>. There is no repository \<open>docs\<close>; her
    repository \<open>gitea-pages\<close> has the pages topic and the pages branch, so the fallback
    of the claim goes on with \<open>gitea-pages\<close>. \<open>Open\<close> fails with \<open>ErrNotExist\<close>.
  \<^item> \<open>bob\<close> asks for \<open>site/index.html\<close>. The repository \<open>site\<close> has no topic;
    his repository \<open>gitea-pages\<close> has the pages topic but no pages branch, so the
    fallback of the claim fails with \<open>ErrNotExist\<close>. \<open>Open\<close> serves the file of
    \<open>site\<close>.
\<close>

theorem Open_fallback_keeps_repo:
  "allowsPages client0 world0 ''alice'' ''docs'' = AllowedBranchesNone
   \<and> allowsPages client0 world0 ''alice'' (giteapages client0) = AllowedBranchesLimited
   \<and> hasRepoBranch client0 world0 ''alice'' (giteapages client0) (giteapages client0)
   \<and> Open client0 world0 ''alice'' ''docs'' ''index.html'' [] True viper_initial
     = (Inl ErrNotExist, viper_initial)
   \<and> allowsPages client0 world0 ''bob'' ''site'' = AllowedBranchesNone
   \<and> allowsPages client0 world0 ''bob'' (giteapages client0) = AllowedBranchesLimited
   \<and> hasRepoBranch client0 world0 ''bob'' (giteapages client0) (giteapages client0) = False
   \<and> Open client0 world0 ''bob'' ''site'' ''index.html'' [] True viper_initial
     = (Inr \<lparr>content = ''site@gitea-pages'', name = ''index.html''\<rparr>, [''*''])"
  by (simp add: Open_defs world0_defs viper_initial_def)

subsection \<open>Loading the configuration\<close>

text \<open>
  Claim C7. Take a request that passes the access check and whose configuration cannot
  be loaded. When the repository is not the default pages repository and the allowance is
  below \<open>AllowedBranchesAll\<close>, \<open>Open\<close> fails with the error of the load. In every other
  case \<open>hasConfig\<close> is false and \<open>Open\<close> goes on to resolve the ref and fetch the
  file.
\<close>

theorem Open_config_failure:
  assumes acc: "Open_access c w ownr (default_repo c rpo0) rf0 compatibilityMode
                  (allowsPages c w ownr (default_repo c rpo0)) = Inr rf1"
    and rc: "readConfig c w ownr (default_repo c rpo0) v = (Some err, v1)"
  shows "(default_repo c rpo0 \<noteq> giteapages c
            \<and> iota (allowsPages c w ownr (default_repo c rpo0)) < iota AllowedBranchesAll
          \<longrightarrow> Open c w ownr rpo0 filepath0 rf0 compatibilityMode v = (Inl err, v1))
       \<and> (\<not> (default_repo c rpo0 \<noteq> giteapages c
               \<and> iota (allowsPages c w ownr (default_repo c rpo0)) < iota AllowedBranchesAll)
          \<longrightarrow> Open_config c w ownr (default_repo c rpo0)
                (allowsPages c w ownr (default_repo c rpo0)) v = (Inr False, v1)
              \<and> Open c w ownr rpo0 filepath0 rf0 compatibilityMode v
                = (case Open_ref c (default_repo c rpo0) rf1
                          (allowsPages c w ownr (default_repo c rpo0)) False v1 of
                     Inl e \<Rightarrow> (Inl e, v1)
                   | Inr rf2 \<Rightarrow>
                       (Open_serve c w ownr (default_repo c rpo0) (default_filepath filepath0) rf2, v1)))"
  using acc rc by (simp add: Open_def Open_config_def Let_def)

text \<open>
  The theorem at the repository \<open>wiki\<close>, whose configuration fetch answers 500, and at
  the default pages repository, which has no configuration file.
\<close>

theorem Open_config_failure_witness:
  "Open_access client0 world0 ''alice'' (default_repo client0 ''wiki'') ''main'' False
      (allowsPages client0 world0 ''alice'' (default_repo client0 ''wiki'')) = Inr ''main''
   \<and> readConfig client0 world0 ''alice'' (default_repo client0 ''wiki'') viper_initial
      = (Some (UnexpectedStatus 500), viper_initial)
   \<and> default_repo client0 ''wiki'' \<noteq> giteapages client0
   \<and> iota (allowsPages client0 world0 ''alice'' (default_repo client0 ''wiki'')) < iota AllowedBranchesAll
   \<and> Open client0 world0 ''alice'' ''wiki'' ''index.html'' ''main'' False viper_initial
      = (Inl (UnexpectedStatus 500), viper_initial)
   \<and> Open_access client0 world0 ''alice'' (default_repo client0 []) ''dev'' False
      (allowsPages client0 world0 ''alice'' (default_repo client0 [])) = Inr ''dev''
   \<and> readConfig client0 world0 ''alice'' (default_repo client0 []) viper_initial
      = (Some ErrNotExist, viper_initial)
   \<and> default_repo client0 [] = giteapages client0
   \<and> Open_config client0 world0 ''alice'' (default_repo client0 [])
        (allowsPages client0 world0 ''alice'' (default_repo client0 [])) viper_initial
      = (Inr False, viper_initial)
   \<and> Open client0 world0 ''alice'' [] ''/'' ''dev'' False viper_initial
      = (Inr \<lparr>content = ''gitea-pages@gitea-pages'', name = ''index.html''\<rparr>, viper_initial)"
proof -
  have a1: "Open_access client0 world0 ''alice'' (default_repo client0 ''wiki'') ''main'' False
      (allowsPages client0 world0 ''alice'' (default_repo client0 ''wiki'')) = Inr ''main''"
    by (simp add: Open_defs world0_defs)
  have r1: "readConfig client0 world0 ''alice'' (default_repo client0 ''wiki'') viper_initial
      = (Some (UnexpectedStatus 500), viper_initial)"
    by (simp add: Open_defs world0_defs)
  have l1: "default_repo client0 ''wiki'' \<noteq> giteapages client0
     \<and> iota (allowsPages client0 world0 ''alice'' (default_repo client0 ''wiki'')) < iota AllowedBranchesAll"
    by (simp add: Open_defs world0_defs)
  have a2: "Open_access client0 world0 ''alice'' (default_repo client0 []) ''dev'' False
      (allowsPages client0 world0 ''alice'' (default_repo client0 [])) = Inr ''dev''"
    by (simp add: Open_defs world0_defs)
  have r2: "readConfig client0 world0 ''alice'' (default_repo client0 []) viper_initial
      = (Some ErrNotExist, viper_initial)"
    by (simp add: Open_defs world0_defs)
  have l2: "default_repo client0 [] = giteapages client0"
    by (simp add: default_repo_def)
  have s2: "Open_ref client0 (default_repo client0 []) ''dev''
              (allowsPages client0 world0 ''alice'' (default_repo client0 [])) False viper_initial
            = Inr ''gitea-pages''"
    by (simp add: Open_defs world0_defs)
  have f2: "Open_serve client0 world0 ''alice'' (default_repo client0 []) (default_filepath ''/'') ''gitea-pages''
            = Inr \<lparr>content = ''gitea-pages@gitea-pages'', name = ''index.html''\<rparr>"
    by (simp add: Open_defs world0_defs)
  show ?thesis
    using a1 r1 l1 a2 r2 l2 s2 f2
      Open_config_failure [OF a1 r1, of "''index.html''"]
      Open_config_failure [OF a2 r2, of "''/''"]
    by simp
qed

subsection \<open>Resolving the ref\<close>

text \<open>
  Claim C6. Take a request that passes the access check and the loading of the
  configuration. When no configuration was loaded and the repository is the default pages
  repository or the ref is the pages name, the file is fetched at the pages name as ref.
  In every other case the ref is checked with \<open>validRefs\<close>: the file is fetched at the
  ref when it is allowed, and \<open>Open\<close> fails with \<open>ErrNotExist\<close> when it is not.
\<close>

theorem Open_ref_resolution:
  assumes acc: "Open_access c w ownr (default_repo c rpo0) rf0 compatibilityMode
                  (allowsPages c w ownr (default_repo c rpo0)) = Inr rf1"
    and cfg: "Open_config c w ownr (default_repo c rpo0)
                  (allowsPages c w ownr (default_repo c rpo0)) v = (Inr hasConfig, v1)"
  shows "(\<not> hasConfig \<and> (default_repo c rpo0 = giteapages c \<or> rf1 = giteapages c)
          \<longrightarrow> Open c w ownr rpo0 filepath0 rf0 compatibilityMode v
              = (Open_serve c w ownr (default_repo c rpo0) (default_filepath filepath0)
                   (giteapages c), v1))
       \<and> (\<not> (\<not> hasConfig \<and> (default_repo c rpo0 = giteapages c \<or> rf1 = giteapages c))
            \<and> validRefs rf1 (allowsPages c w ownr (default_repo c rpo0)) v1
          \<longrightarrow> Open c w ownr rpo0 filepath0 rf0 compatibilityMode v
              = (Open_serve c w ownr (default_repo c rpo0) (default_filepath filepath0) rf1, v1))
       \<and> (\<not> (\<not> hasConfig \<and> (default_repo c rpo0 = giteapages c \<or> rf1 = giteapages c))
            \<and> \<not> validRefs rf1 (allowsPages c w ownr (default_repo c rpo0)) v1
          \<longrightarrow> Open c w ownr rpo0 filepath0 rf0 compatibilityMode v = (Inl ErrNotExist, v1))"
  using acc cfg by (auto simp add: Open_def Open_ref_def Let_def)

text \<open>
  The theorem at the default pages repository asked for at the ref \<open>dev\<close>, and at the
  repository \<open>blog\<close> asked for at \<open>main\<close> and at \<open>dev\<close>.
\<close>

theorem Open_ref_resolution_witness:
  "Open_access client0 world0 ''alice'' (default_repo client0 []) ''dev'' False
      (allowsPages client0 world0 ''alice'' (default_repo client0 [])) = Inr ''dev''
   \<and> Open_config client0 world0 ''alice'' (default_repo client0 [])
        (allowsPages client0 world0 ''alice'' (default_repo client0 [])) viper_initial
      = (Inr False, viper_initial)
   \<and> default_repo client0 [] = giteapages client0
   \<and> Open client0 world0 ''alice'' [] ''/'' ''dev'' False viper_initial
      = (Inr \<lparr>content = ''gitea-pages@gitea-pages'', name = ''index.html''\<rparr>, viper_initial)
   \<and> Open_access client0 world0 ''alice'' (default_repo client0 ''blog'') ''main'' False
      (allowsPages client0 world0 ''alice'' (default_repo client0 ''blog'')) = Inr ''main''
   \<and> Open_config client0 world0 ''alice'' (default_repo client0 ''blog'')
        (allowsPages client0 world0 ''alice'' (default_repo client0 ''blog'')) viper_initial
      = (Inr True, [''main''])
   \<and> validRefs ''main'' (allowsPages client0 world0 ''alice'' (default_repo client0 ''blog'')) [''main'']
   \<and> Open client0 world0 ''alice'' ''blog'' [] ''main'' False viper_initial
      = (Inr \<lparr>content = ''blog@main'', name = ''index.html''\<rparr>, [''main''])
   \<and> Open_access client0 world0 ''alice'' (default_repo client0 ''blog'') ''dev'' False
      (allowsPages client0 world0 ''alice'' (default_repo client0 ''blog'')) = Inr ''dev''
   \<and> \<not> validRefs ''dev'' (allowsPages client0 world0 ''alice'' (default_repo client0 ''blog'')) [''main'']
   \<and> Open client0 world0 ''alice'' ''blog'' [] ''dev'' False viper_initial
      = (Inl ErrNotExist, [''main''])"
proof -
  have a1: "Open_access client0 world0 ''alice'' (default_repo client0 []) ''dev'' False
      (allowsPages client0 world0 ''alice'' (default_repo client0 [])) = Inr ''dev''"
    by (simp add: Open_defs world0_defs)
  have c1: "Open_config client0 world0 ''alice'' (default_repo client0 [])
        (allowsPages client0 world0 ''alice'' (default_repo client0 [])) viper_initial
      = (Inr False, viper_initial)"
    by (simp add: Open_defs world0_defs)
  have l1: "default_repo client0 [] = giteapages client0"
    by (simp add: default_repo_def)
  have f1: "Open_serve client0 world0 ''alice'' (default_repo client0 []) (default_filepath ''/'')
              (giteapages client0)
            = Inr \<lparr>content = ''gitea-pages@gitea-pages'', name = ''index.html''\<rparr>"
    by (simp add: Open_defs world0_defs)
  have a2: "Open_access client0 world0 ''alice'' (default_repo client0 ''blog'') ''main'' False
      (allowsPages client0 world0 ''alice'' (default_repo client0 ''blog'')) = Inr ''main''"
    by (simp add: Open_defs world0_defs)
  have c2: "Open_config client0 world0 ''alice'' (default_repo client0 ''blog'')
        (allowsPages client0 world0 ''alice'' (default_repo client0 ''blog'')) viper_initial
      = (Inr True, [''main''])"
    by (simp add: Open_defs world0_defs viper_initial_def)
  have v2: "validRefs ''main'' (allowsPages client0 world0 ''alice'' (default_repo client0 ''blog'')) [''main'']"
    by (simp add: Open_defs world0_defs)
  have f2: "Open_serve client0 world0 ''alice'' (default_repo client0 ''blog'') (default_filepath []) ''main''
            = Inr \<lparr>content = ''blog@main'', name = ''index.html''\<rparr>"
    by (simp add: Open_defs world0_defs)
  have a3: "Open_access client0 world0 ''alice'' (default_repo client0 ''blog'') ''dev'' False
      (allowsPages client0 world0 ''alice'' (default_repo client0 ''blog'')) = Inr ''dev''"
    by (simp add: Open_defs world0_defs)
  have v3: "\<not> validRefs ''dev'' (allowsPages client0 world0 ''alice'' (default_repo client0 ''blog'')) [''main'']"
    by (simp add: Open_defs world0_defs)
  have n3: "default_repo client0 ''blog'' \<noteq> giteapages client0"
    by (simp add: default_repo_def client0_def)
  show ?thesis
    using a1 c1 l1 f1 a2 c2 v2 f2 a3 v3 n3
      Open_ref_resolution [OF a1 c1, of "''/''"]
      Open_ref_resolution [OF a2 c2, of "[]"]
      Open_ref_resolution [OF a3 c2, of "[]"]
    by simp
qed

end
